theory Spec2Isabelle
  imports Main "HOL-Library.Word"
begin

unbundle bit_operations_syntax

section \<open>mysh: a shell with pipes and redirection (mysh.c)\<close>

text \<open>
  The program is a read-eval loop (\<open>main\<close>) that splits every line at the pipe
  character, forks one child per segment and lets the child run \<open>process_args\<close>,
  which wires the standard streams, scans the tokens of the segment and replaces the
  process image.  The embedding has three layers:
  \<^item> the C library and kernel calls the program relies on (\<open>strtok\<close>, \<open>strcspn\<close>,
    \<open>pipe\<close>, \<open>dup2\<close>, \<open>close\<close>, \<open>open\<close>), modelled after POSIX on an explicit
    descriptor table and file store;
  \<^item> \<open>process_args\<close>, the code run by each child;
  \<^item> \<open>count_pipes\<close> and the stage loop of \<open>main\<close>, the code run by the parent.
  Undefined behaviour of the C program (a read through a null pointer, a store beyond
  \<open>opt_args_buf\<close>) is an outcome of its own: the model stops at the first such
  operation.  An input line is the string that \<open>fgets\<close> returns, which ends with the
  line terminator unless the input ended first; the children run concurrently, so the
  parent only records how each child is started, and what a child does is a function of
  that record and of the file store it finds.
\<close>

subsection \<open>Strings: \<open>strtok\<close> and \<open>strcspn\<close>\<close>

definition newline :: char where
  "newline = CHR 0x0A"

definition space :: char where
  "space = CHR 0x20"

definition bar :: char where
  "bar = CHR 0x7C"

text \<open>
  \<open>strtok_from d cur s\<close>: the tokens that successive calls of \<open>strtok\<close> with the
  single delimiter \<open>d\<close> return on the rest \<open>s\<close> of the buffer, \<open>cur\<close> being the part
  of the current token already passed.  Delimiters before a token are skipped, so no
  token is empty.
\<close>

fun strtok_from :: "char \<Rightarrow> string \<Rightarrow> string \<Rightarrow> string list" where
  "strtok_from d cur [] = (if cur = [] then [] else [cur])"
| "strtok_from d cur (c # cs) =
     (if c = d then (if cur = [] then strtok_from d [] cs else cur # strtok_from d [] cs)
      else strtok_from d (cur @ [c]) cs)"

definition strtok_all :: "char \<Rightarrow> string \<Rightarrow> string list" where
  "strtok_all d s = strtok_from d [] s"

text \<open>\<open>s[strcspn(s, "\n")] = 0\<close>: cut the string at its first line terminator.\<close>

definition strip_newline :: "string \<Rightarrow> string" where
  "strip_newline s = takeWhile (\<lambda>c. c \<noteq> newline) s"

definition exit_nl :: string where
  "exit_nl = ''exit\<newline>''"

subsection \<open>Descriptor tables\<close>

datatype oflag = O_RDONLY | O_WRONLY | O_CREAT | O_TRUNC | O_APPEND

text \<open>
  What a descriptor refers to: the terminal the shell was started on, the read or the
  write end of the pipe with a given number, or a file opened with given flags.
\<close>

datatype desc = Tty | PipeR nat | PipeW nat | File string "oflag list"

text \<open>The descriptor table of a process: entry \<open>fd\<close> is what descriptor \<open>fd\<close> is open on.\<close>

type_synonym fdtable = "desc option list"

definition fd_get :: "fdtable \<Rightarrow> nat \<Rightarrow> desc option" where
  "fd_get t fd = (if fd < length t then t ! fd else None)"

definition fd_set :: "fdtable \<Rightarrow> nat \<Rightarrow> desc option \<Rightarrow> fdtable" where
  "fd_set t fd x =
     (if fd < length t then t[fd := x] else t @ replicate (fd - length t) None @ [x])"

text \<open>The kernel hands out the lowest descriptor number that is not open.\<close>

fun lowest_free :: "fdtable \<Rightarrow> nat" where
  "lowest_free [] = 0"
| "lowest_free (x # t) = (case x of None \<Rightarrow> 0 | Some d \<Rightarrow> Suc (lowest_free t))"

text \<open>\<open>close\<close> and \<open>dup2\<close> fail (\<open>None\<close>) on a descriptor that is not open.\<close>

definition sys_close :: "fdtable \<Rightarrow> nat \<Rightarrow> fdtable option" where
  "sys_close t fd = (case fd_get t fd of None \<Rightarrow> None | Some d \<Rightarrow> Some (fd_set t fd None))"

definition sys_dup2 :: "fdtable \<Rightarrow> nat \<Rightarrow> nat \<Rightarrow> fdtable option" where
  "sys_dup2 t oldfd newfd =
     (case fd_get t oldfd of None \<Rightarrow> None | Some d \<Rightarrow> Some (fd_set t newfd (Some d)))"

text \<open>\<open>pipe\<close> for the pipe numbered \<open>k\<close>: the read end, the write end, the new table.\<close>

definition sys_pipe :: "fdtable \<Rightarrow> nat \<Rightarrow> nat \<times> nat \<times> fdtable" where
  "sys_pipe t k =
     (let r = lowest_free t;
          t1 = fd_set t r (Some (PipeR k));
          w = lowest_free t1
      in (r, w, fd_set t1 w (Some (PipeW k))))"

definition is_pipe_end :: "desc option \<Rightarrow> bool" where
  "is_pipe_end x = (case x of Some (PipeR k) \<Rightarrow> True | Some (PipeW k) \<Rightarrow> True | _ \<Rightarrow> False)"

text \<open>The descriptor numbers of a table that are open on an end of a pipe.\<close>

definition pipe_fds :: "fdtable \<Rightarrow> nat list" where
  "pipe_fds t = filter (\<lambda>fd. is_pipe_end (t ! fd)) [0..<length t]"

subsection \<open>Files\<close>

text \<open>A regular file: its bytes and its permission bits (a \<open>mode_t\<close>).\<close>

record regfile =
  contents :: string
  perms :: "32 word"

type_synonym fsys = "string \<Rightarrow> regfile option"

text \<open>
  What the program cannot decide: whether \<open>pipe\<close> and \<open>fork\<close> fail (by the number of
  pipes and children made so far), whether a path may be opened, whether a program can
  be executed, and the file mode creation mask the shell was started with, which every
  child inherits.
\<close>

record env =
  pipe_fails :: "nat \<Rightarrow> bool"
  fork_fails :: "nat \<Rightarrow> bool"
  open_fails :: "string \<Rightarrow> bool"
  exec_fails :: "string \<Rightarrow> bool"
  umask :: "32 word"

text \<open>
  \<open>open(path, flags, mode)\<close>: fails on the empty path, on a path the environment
  refuses and on a missing file without \<open>O_CREAT\<close>; creates a missing file with
  the permission bits of \<open>mode\<close> that the file mode creation mask does not clear
  (\<open>mode & ~umask\<close>); empties an existing file under \<open>O_TRUNC\<close> and leaves its
  permission bits as they are.  The result is the new descriptor, the table and the
  file store.
\<close>

definition sys_open ::
  "env \<Rightarrow> fsys \<Rightarrow> fdtable \<Rightarrow> string \<Rightarrow> oflag list \<Rightarrow> 32 word \<Rightarrow>
     (nat \<times> fdtable \<times> fsys) option" where
  "sys_open e fs t path flags mode =
     (if path = [] \<or> open_fails e path then None
      else
        let fd = lowest_free t; t' = fd_set t fd (Some (File path flags)) in
        (case fs path of
           None \<Rightarrow>
             if O_CREAT \<in> set flags
             then Some (fd, t', fs(path \<mapsto> \<lparr>contents = [], perms = mode AND NOT (umask e)\<rparr>))
             else None
         | Some f \<Rightarrow>
             if O_TRUNC \<in> set flags
             then Some (fd, t', fs(path \<mapsto> f\<lparr>contents := []\<rparr>))
             else Some (fd, t', fs)))"

text \<open>
  \<open>write\<close> of \<open>data\<close> through a descriptor on a file whose offset is \<open>off\<close>: under
  \<open>O_APPEND\<close> the data goes to the end of the file whatever the offset.
\<close>

definition sys_write :: "fsys \<Rightarrow> desc \<Rightarrow> nat \<Rightarrow> string \<Rightarrow> fsys" where
  "sys_write fs d off data =
     (case d of
        File path flags \<Rightarrow>
          (case fs path of
             None \<Rightarrow> fs
           | Some f \<Rightarrow>
               if O_APPEND \<in> set flags
               then fs(path \<mapsto> f\<lparr>contents := contents f @ data\<rparr>)
               else fs(path \<mapsto> f\<lparr>contents :=
                      take off (contents f) @ data @ drop (off + length data) (contents f)\<rparr>))
      | _ \<Rightarrow> fs)"

text \<open>The octal constant \<open>0644\<close> of the source.\<close>

definition mode_0644 :: "32 word" where
  "mode_0644 = 6 * 64 + 4 * 8 + 4"

subsection \<open>The child: \<open>process_args\<close>\<close>

definition MAX_ARGS :: nat where
  "MAX_ARGS = 10"

datatype fault = NullDeref | ArgsOverflow

text \<open>
  How a child ends: its image is replaced (\<open>execvp\<close> with the program name and the
  argument vector), it calls \<open>exit\<close> with a status, or it runs into undefined behaviour.
\<close>

datatype outcome = Exec string "string list" | Exit nat | Fault fault

text \<open>The state of a child: its descriptor table, the file store, what it passed to \<open>perror\<close>.\<close>

record proc =
  p_fds :: fdtable
  p_fs :: fsys
  p_err :: "string list"

definition perror :: "string \<Rightarrow> proc \<Rightarrow> proc" where
  "perror msg p = p\<lparr>p_err := p_err p @ [msg]\<rparr>"

text \<open>
  The file store after the process, or the program it has become, writes \<open>data\<close> to its
  descriptor \<open>fd\<close>, the offset of the descriptor being \<open>off\<close>.
\<close>

definition write_through :: "proc \<Rightarrow> nat \<Rightarrow> nat \<Rightarrow> string \<Rightarrow> fsys" where
  "write_through p fd off data =
     (case fd_get (p_fds p) fd of
        None \<Rightarrow> p_fs p
      | Some d \<Rightarrow> sys_write (p_fs p) d off data)"

text \<open>
  Lines 197-206 and 210-219: \<open>dup2\<close> the descriptor onto the standard stream \<open>std\<close>
  and close it, unless it is \<open>std\<close> already.
\<close>

definition rebind :: "nat \<Rightarrow> nat \<Rightarrow> proc \<Rightarrow> (outcome \<times> proc) + proc" where
  "rebind fd std p =
     (if fd \<noteq> std then
        (case sys_dup2 (p_fds p) fd std of
           None \<Rightarrow> Inl (Exit 2, perror ''dup2'' p)
         | Some t1 \<Rightarrow>
             (case sys_close t1 fd of
                None \<Rightarrow> Inl (Exit 1, perror ''close'' (p\<lparr>p_fds := t1\<rparr>))
              | Some t2 \<Rightarrow> Inr (p\<lparr>p_fds := t2\<rparr>)))
      else Inr p)"

text \<open>
  Lines 235-251, 255-271 and 275-291, after the file name has been fetched: strip the
  line terminator from the name, \<open>open\<close> it with the flags of the branch, \<open>dup2\<close> the
  new descriptor onto the standard stream, store the null pointer at
  \<open>opt_args_buf[args_buf_index]\<close>.
\<close>

definition redirect ::
  "env \<Rightarrow> string \<Rightarrow> oflag list \<Rightarrow> 32 word \<Rightarrow> nat \<Rightarrow> nat \<Rightarrow> proc \<Rightarrow> (outcome \<times> proc) + proc" where
  "redirect e name flags mode std args_buf_index p =
     (case sys_open e (p_fs p) (p_fds p) (strip_newline name) flags mode of
        None \<Rightarrow> Inl (Exit 1, perror ''open'' p)
      | Some (fd, t1, fs1) \<Rightarrow>
          (case sys_dup2 t1 fd std of
             None \<Rightarrow> Inl (Exit 2, perror ''dup2'' (p\<lparr>p_fds := t1, p_fs := fs1\<rparr>))
           | Some t2 \<Rightarrow>
               if MAX_ARGS \<le> args_buf_index
               then Inl (Fault ArgsOverflow, p\<lparr>p_fds := t2, p_fs := fs1\<rparr>)
               else Inr (p\<lparr>p_fds := t2, p_fs := fs1\<rparr>)))"

text \<open>
  The token loop of lines 228-300 on the tokens that \<open>strtok\<close> still has to return;
  \<open>args\<close> is \<open>opt_args_buf[0..args_buf_index)\<close>.  A redirection operator takes the
  next token as its file name; with no token left, \<open>strtok\<close> returns the null pointer
  and \<open>strcspn\<close> reads through it.
\<close>

fun scan :: "env \<Rightarrow> string list \<Rightarrow> string list \<Rightarrow> proc \<Rightarrow> (outcome \<times> proc) + (string list \<times> proc)" where
  "scan e [] args p = Inr (args, p)"
| "scan e (token # rest) args p =
     (if token = exit_nl then Inl (Exit 0, p)
      else if token = ''<'' then
        (case rest of
           [] \<Rightarrow> Inl (Fault NullDeref, p)
         | input_file # rest' \<Rightarrow>
             (case redirect e input_file [O_RDONLY] 0 0 (length args) p of
                Inl r \<Rightarrow> Inl r
              | Inr p' \<Rightarrow> scan e rest' args p'))
      else if token = ''>'' then
        (case rest of
           [] \<Rightarrow> Inl (Fault NullDeref, p)
         | output_file # rest' \<Rightarrow>
             (case redirect e output_file [O_TRUNC, O_CREAT, O_WRONLY] mode_0644 1 (length args) p of
                Inl r \<Rightarrow> Inl r
              | Inr p' \<Rightarrow> scan e rest' args p'))
      else if token = ''>>'' then
        (case rest of
           [] \<Rightarrow> Inl (Fault NullDeref, p)
         | output_file # rest' \<Rightarrow>
             (case redirect e output_file [O_APPEND, O_CREAT, O_WRONLY] mode_0644 1 (length args) p of
                Inl r \<Rightarrow> Inl r
              | Inr p' \<Rightarrow> scan e rest' args p'))
      else if MAX_ARGS \<le> length args then Inl (Fault ArgsOverflow, p)
      else scan e rest (args @ [strip_newline token]) p)"

text \<open>
  Lines 302-309: strip the program name (a null pointer when the segment had no
  token), terminate the argument vector, \<open>execvp\<close>.
\<close>

definition finish :: "env \<Rightarrow> string list \<Rightarrow> string list \<Rightarrow> proc \<Rightarrow> outcome \<times> proc" where
  "finish e tokens args p =
     (case tokens of
        [] \<Rightarrow> (Fault NullDeref, p)
      | token # rest \<Rightarrow>
          let program_name = strip_newline token in
          if MAX_ARGS \<le> length args then (Fault ArgsOverflow, p)
          else if exec_fails e program_name then (Exit 3, perror ''execvp'' p)
          else (Exec program_name args, p))"

definition process_args :: "env \<Rightarrow> string \<Rightarrow> nat \<Rightarrow> nat \<Rightarrow> proc \<Rightarrow> outcome \<times> proc" where
  "process_args e arg_str read_fd write_fd p =
     (case rebind write_fd 1 p of
        Inl r \<Rightarrow> r
      | Inr p1 \<Rightarrow>
          (case rebind read_fd 0 p1 of
             Inl r \<Rightarrow> r
           | Inr p2 \<Rightarrow>
               let tokens = strtok_all space arg_str in
               (case scan e tokens [] p2 of
                  Inl r \<Rightarrow> r
                | Inr (args, p3) \<Rightarrow> finish e tokens args p3)))"

subsection \<open>The parent: \<open>count_pipes\<close> and the stage loop of \<open>main\<close>\<close>

text \<open>Lines 148-173: the number of blank-separated tokens that are exactly the pipe operator.\<close>

definition count_pipes :: "string \<Rightarrow> nat" where
  "count_pipes input_buf = length (filter (\<lambda>token. token = [bar]) (strtok_all space input_buf))"

text \<open>
  A forked child: the copy of the descriptor table it starts with and the arguments of
  its call of \<open>process_args\<close>.
\<close>

record child =
  c_fds :: fdtable
  c_arg_str :: string
  c_read_fd :: nat
  c_write_fd :: nat

text \<open>
  The parent: its descriptor table, the children forked so far, the number of pipes
  made, its \<open>perror\<close> messages, the numbers of \<open>wait\<close> calls and of prompts printed,
  and the variables of \<open>main\<close> that live across iterations of the stage loop.
\<close>

record shell =
  fds :: fdtable
  children :: "child list"
  pipes_made :: nat
  errlog :: "string list"
  wait_calls :: nat
  prompts :: nat
  read_fd :: nat
  write_fd :: nat
  pipe_index :: nat

datatype flow = Next | Break | ExitWith nat

text \<open>Lines 74-84: make the pipe of this stage when it is not the last one counted.\<close>

definition make_pipe :: "env \<Rightarrow> nat \<Rightarrow> shell \<Rightarrow> shell option" where
  "make_pipe e num_pipes s =
     (if pipe_index s < num_pipes then
        (if pipe_fails e (pipes_made s) then None
         else
           (case sys_pipe (fds s) (pipes_made s) of
              (r, w, t) \<Rightarrow>
                Some (s\<lparr>fds := t, read_fd := r, write_fd := w, pipes_made := Suc (pipes_made s)\<rparr>)))
      else Some s)"

text \<open>Lines 93-106: what the child does with its copy of the parent's state.\<close>

definition child_of :: "nat \<Rightarrow> string \<Rightarrow> nat \<Rightarrow> shell \<Rightarrow> child" where
  "child_of num_pipes token prev_read_fd s =
     (if pipe_index s = 0
      then \<lparr>c_fds = fds s, c_arg_str = token, c_read_fd = 0, c_write_fd = write_fd s\<rparr>
      else \<lparr>c_fds = fds s, c_arg_str = token, c_read_fd = prev_read_fd,
             c_write_fd = (if pipe_index s = num_pipes then 1 else write_fd s)\<rparr>)"

text \<open>Lines 108-130: the parent closes its copies, fetches the next token and counts.\<close>

definition parent_after_fork :: "nat \<Rightarrow> nat \<Rightarrow> shell \<Rightarrow> flow \<times> shell" where
  "parent_after_fork num_pipes prev_read_fd s =
     (if num_pipes > 0 then
        (case (if pipe_index s < num_pipes then sys_close (fds s) (write_fd s) else Some (fds s)) of
           None \<Rightarrow> (Break, s\<lparr>errlog := errlog s @ [''close'']\<rparr>)
         | Some t1 \<Rightarrow>
             (case (if pipe_index s \<noteq> 0 then sys_close t1 prev_read_fd else Some t1) of
                None \<Rightarrow> (Break, s\<lparr>fds := t1, errlog := errlog s @ [''close'']\<rparr>)
              | Some t2 \<Rightarrow> (Next, s\<lparr>fds := t2, pipe_index := Suc (pipe_index s)\<rparr>)))
      else (Next, s\<lparr>pipe_index := Suc (pipe_index s)\<rparr>))"

text \<open>Lines 59-131: one iteration of the stage loop on the segment \<open>token\<close>.\<close>

definition stage_step :: "env \<Rightarrow> nat \<Rightarrow> string \<Rightarrow> shell \<Rightarrow> flow \<times> shell" where
  "stage_step e num_pipes token s =
     (if token = exit_nl then (ExitWith 0, s)
      else if token = ''\<newline>'' then (Break, s)
      else
        let prev_read_fd = read_fd s in
        (case make_pipe e num_pipes s of
           None \<Rightarrow> (Break, s\<lparr>errlog := errlog s @ [''pipe'']\<rparr>)
         | Some s1 \<Rightarrow>
             if fork_fails e (length (children s1))
             then (ExitWith 1, s1\<lparr>errlog := errlog s1 @ [''fork'']\<rparr>)
             else parent_after_fork num_pipes prev_read_fd
                    (s1\<lparr>children := children s1 @ [child_of num_pipes token prev_read_fd s1]\<rparr>)))"

text \<open>The stage loop on the segments that \<open>strtok\<close> returns for the pipe character.\<close>

fun stage_loop :: "env \<Rightarrow> nat \<Rightarrow> string list \<Rightarrow> shell \<Rightarrow> flow \<times> shell" where
  "stage_loop e num_pipes [] s = (Next, s)"
| "stage_loop e num_pipes (token # rest) s =
     (case stage_step e num_pipes token s of
        (Next, s') \<Rightarrow> stage_loop e num_pipes rest s'
      | (Break, s') \<Rightarrow> (Break, s')
      | (ExitWith c, s') \<Rightarrow> (ExitWith c, s'))"

text \<open>
  Lines 42-138, one line read by \<open>fgets\<close>: count the pipes, run the stage loop, and
  unless the process has exited call \<open>wait\<close> once per counted stage and prompt again.
  The result is the exit status if the process exited.
\<close>

definition run_line :: "env \<Rightarrow> string \<Rightarrow> shell \<Rightarrow> nat option \<times> shell" where
  "run_line e input_buf s =
     (let num_pipes = count_pipes input_buf in
      (case stage_loop e num_pipes (strtok_all bar input_buf)
              (s\<lparr>write_fd := 1, read_fd := 0, pipe_index := 0\<rparr>) of
         (ExitWith c, s') \<Rightarrow> (Some c, s')
       | (fl, s') \<Rightarrow>
           (None, s'\<lparr>wait_calls := wait_calls s' + (num_pipes + 1), prompts := Suc (prompts s')\<rparr>)))"

text \<open>The read loop over the lines \<open>fgets\<close> returns until the end of input.\<close>

fun read_loop :: "env \<Rightarrow> string list \<Rightarrow> shell \<Rightarrow> nat \<times> shell" where
  "read_loop e [] s = (0, s)"
| "read_loop e (input_buf # later) s =
     (case run_line e input_buf s of
        (Some c, s') \<Rightarrow> (c, s')
      | (None, s') \<Rightarrow> read_loop e later s')"

definition main :: "env \<Rightarrow> string list \<Rightarrow> shell \<Rightarrow> nat \<times> shell" where
  "main e lines s = read_loop e lines (s\<lparr>prompts := Suc (prompts s)\<rparr>)"

text \<open>The shell as it is started: the three standard descriptors on the terminal.\<close>

definition shell0 :: shell where
  "shell0 = \<lparr>fds = [Some Tty, Some Tty, Some Tty], children = [], pipes_made = 0, errlog = [],
             wait_calls = 0, prompts = 0, read_fd = 0, write_fd = 1, pipe_index = 0\<rparr>"

text \<open>A child as it starts: the descriptor table it inherited, a file store, no message.\<close>

definition run_child :: "env \<Rightarrow> fsys \<Rightarrow> child \<Rightarrow> outcome \<times> proc" where
  "run_child e fs c =
     process_args e (c_arg_str c) (c_read_fd c) (c_write_fd c)
       \<lparr>p_fds = c_fds c, p_fs = fs, p_err = []\<rparr>"

subsection \<open>Concrete environments\<close>

text \<open>
  An environment in which no call fails, except that the empty program name cannot be
  executed, with the usual mask \<open>022\<close>; the same environment with the mask \<open>077\<close>,
  and with every \<open>open\<close> refused; file stores with no file and with one file; a process
  that has the three standard descriptors on the terminal.
\<close>

definition env_std :: env where
  "env_std = \<lparr>pipe_fails = (\<lambda>k. False), fork_fails = (\<lambda>k. False),
               open_fails = (\<lambda>path. False), exec_fails = (\<lambda>prog. prog = []),
               umask = 2 * 8 + 2\<rparr>"

definition env_077 :: env where
  "env_077 = env_std\<lparr>umask := 7 * 8 + 7\<rparr>"

definition env_denied :: env where
  "env_denied = env_std\<lparr>open_fails := (\<lambda>path. True)\<rparr>"

definition no_files :: fsys where
  "no_files = (\<lambda>path. None)"

definition one_file :: "string \<Rightarrow> string \<Rightarrow> fsys" where
  "one_file name data =
     (\<lambda>path. if path = name then Some \<lparr>contents = data, perms = mode_0644\<rparr> else None)"

definition tty_proc :: "fsys \<Rightarrow> proc" where
  "tty_proc fs = \<lparr>p_fds = [Some Tty, Some Tty, Some Tty], p_fs = fs, p_err = []\<rparr>"

subsection \<open>The invariant of the stage loop\<close>

text \<open>
  At the head of the stage loop the parent holds no end of a pipe before the first
  stage, and afterwards exactly the read end of the previous pipe, at \<open>read_fd\<close>.
\<close>

definition pipe_only_at_read_fd :: "shell \<Rightarrow> bool" where
  "pipe_only_at_read_fd s \<longleftrightarrow>
     (\<forall>fd. is_pipe_end (fd_get (fds s) fd) \<longrightarrow> 0 < pipe_index s \<and> fd = read_fd s) \<and>
     (0 < pipe_index s \<longrightarrow> fd_get (fds s) (read_fd s) \<noteq> None)"

section \<open>Facts about descriptor tables\<close>

lemma fd_get_fd_set: "fd_get (fd_set t fd x) fd' = (if fd' = fd then x else fd_get t fd')"
  by (auto simp: fd_get_def fd_set_def nth_append nth_Cons')

lemma fd_get_lowest_free: "fd_get t (lowest_free t) = None"
  by (induction t) (auto simp: fd_get_def split: option.splits)

lemma pipe_fds_empty_iff: "pipe_fds t = [] \<longleftrightarrow> (\<forall>fd. \<not> is_pipe_end (fd_get t fd))"
  by (auto simp: pipe_fds_def fd_get_def filter_empty_conv is_pipe_end_def)

lemma sys_pipe_fresh:
  assumes "sys_pipe t k = (r, w, t')"
  shows "fd_get t r = None" and "fd_get t w = None" and "r \<noteq> w"
    and "fd_get t' fd =
           (if fd = w then Some (PipeW k) else if fd = r then Some (PipeR k) else fd_get t fd)"
proof -
  let ?t1 = "fd_set t (lowest_free t) (Some (PipeR k))"
  from assms have r: "r = lowest_free t" and w: "w = lowest_free ?t1"
    and t': "t' = fd_set ?t1 w (Some (PipeW k))"
    by (auto simp: sys_pipe_def Let_def)
  show "fd_get t r = None" by (simp add: r fd_get_lowest_free)
  have w1: "fd_get ?t1 w = None" by (simp add: w fd_get_lowest_free)
  then show "r \<noteq> w" by (auto simp: fd_get_fd_set r)
  from w1 show "fd_get t w = None" by (simp add: fd_get_fd_set split: if_splits)
  show "fd_get t' fd =
          (if fd = w then Some (PipeW k) else if fd = r then Some (PipeR k) else fd_get t fd)"
    by (simp add: t' r fd_get_fd_set)
qed

lemma sys_close_open:
  assumes "fd_get t fd = Some d"
  shows "sys_close t fd = Some (fd_set t fd None)"
  using assms by (simp add: sys_close_def)

section \<open>The parent's descriptors across the stage loop\<close>

text \<open>A stage that is not the last one counted: a pipe is made, the parent keeps its read end.\<close>

lemma stage_step_inner:
  assumes idx: "pipe_index s < np" and tok: "token \<noteq> exit_nl" "token \<noteq> ''\<newline>''"
    and ok: "\<not> pipe_fails e (pipes_made s)" "\<not> fork_fails e (length (children s))"
    and inv: "pipe_only_at_read_fd s"
  shows "\<exists>s'. stage_step e np token s = (Next, s') \<and> pipe_index s' = Suc (pipe_index s) \<and>
           pipes_made s' = Suc (pipes_made s) \<and>
           length (children s') = Suc (length (children s)) \<and> pipe_only_at_read_fd s'"
proof -
  obtain r w t where p: "sys_pipe (fds s) (pipes_made s) = (r, w, t)"
    by (cases "sys_pipe (fds s) (pipes_made s)") auto
  note fresh = sys_pipe_fresh[OF p]
  define s1 where
    "s1 = s\<lparr>fds := t, read_fd := r, write_fd := w, pipes_made := Suc (pipes_made s)\<rparr>"
  have mp: "make_pipe e np s = Some s1"
    using idx ok p by (simp add: make_pipe_def s1_def)
  define s2 where "s2 = s1\<lparr>children := children s1 @ [child_of np token (read_fd s) s1]\<rparr>"
  have step: "stage_step e np token s = parent_after_fork np (read_fd s) s2"
    using tok ok mp by (simp add: stage_step_def s2_def s1_def Let_def)
  have cw: "sys_close t w = Some (fd_set t w None)"
    by (rule sys_close_open[where d = "PipeW (pipes_made s)"]) (simp add: fresh(4))
  show ?thesis
  proof (cases "pipe_index s = 0")
    case True
    have "parent_after_fork np (read_fd s) s2 =
            (Next, s2\<lparr>fds := fd_set t w None, pipe_index := Suc 0\<rparr>)"
      using idx True cw by (simp add: parent_after_fork_def s2_def s1_def)
    moreover have "pipe_only_at_read_fd (s2\<lparr>fds := fd_set t w None, pipe_index := Suc 0\<rparr>)"
      using inv True fresh(3)
      by (auto simp: pipe_only_at_read_fd_def s2_def s1_def fd_get_fd_set fresh(4)
            is_pipe_end_def split: if_splits)
    ultimately show ?thesis
      using step True by (simp add: s2_def s1_def)
  next
    case False
    from inv False obtain d where old: "fd_get (fds s) (read_fd s) = Some d"
      by (auto simp: pipe_only_at_read_fd_def)
    with fresh(1,2) have ne: "read_fd s \<noteq> r" "read_fd s \<noteq> w" by auto
    have cp: "sys_close (fd_set t w None) (read_fd s) =
                Some (fd_set (fd_set t w None) (read_fd s) None)"
      by (rule sys_close_open[where d = d]) (simp add: fd_get_fd_set fresh(4) ne old)
    have "parent_after_fork np (read_fd s) s2 =
            (Next, s2\<lparr>fds := fd_set (fd_set t w None) (read_fd s) None,
                       pipe_index := Suc (pipe_index s)\<rparr>)"
      using idx False cw cp by (simp add: parent_after_fork_def s2_def s1_def)
    moreover have "pipe_only_at_read_fd
        (s2\<lparr>fds := fd_set (fd_set t w None) (read_fd s) None, pipe_index := Suc (pipe_index s)\<rparr>)"
      using inv fresh(3) ne
      by (auto simp: pipe_only_at_read_fd_def s2_def s1_def fd_get_fd_set fresh(4)
            is_pipe_end_def split: if_splits)
    ultimately show ?thesis
      using step by (simp add: s2_def s1_def)
  qed
qed

text \<open>The last stage counted: no pipe is made, the parent closes the read end it held.\<close>

lemma stage_step_last:
  assumes idx: "pipe_index s = np" and tok: "token \<noteq> exit_nl" "token \<noteq> ''\<newline>''"
    and ok: "\<not> fork_fails e (length (children s))"
    and inv: "pipe_only_at_read_fd s"
  shows "\<exists>s'. stage_step e np token s = (Next, s') \<and> pipes_made s' = pipes_made s \<and>
           length (children s') = Suc (length (children s)) \<and> pipe_fds (fds s') = []"
proof -
  define s2 where "s2 = s\<lparr>children := children s @ [child_of np token (read_fd s) s]\<rparr>"
  have step: "stage_step e np token s = parent_after_fork np (read_fd s) s2"
    using tok ok idx by (simp add: stage_step_def make_pipe_def s2_def Let_def)
  show ?thesis
  proof (cases "np = 0")
    case True
    then have "parent_after_fork np (read_fd s) s2 = (Next, s2\<lparr>pipe_index := Suc (pipe_index s)\<rparr>)"
      by (simp add: parent_after_fork_def s2_def)
    moreover have "pipe_fds (fds s) = []"
      using inv True idx by (auto simp: pipe_fds_empty_iff pipe_only_at_read_fd_def)
    ultimately show ?thesis using step by (simp add: s2_def)
  next
    case False
    with inv idx obtain d where old: "fd_get (fds s) (read_fd s) = Some d"
      by (auto simp: pipe_only_at_read_fd_def)
    have "parent_after_fork np (read_fd s) s2 =
            (Next, s2\<lparr>fds := fd_set (fds s) (read_fd s) None, pipe_index := Suc (pipe_index s)\<rparr>)"
      using False idx sys_close_open[OF old] by (simp add: parent_after_fork_def s2_def)
    moreover have "pipe_fds (fd_set (fds s) (read_fd s) None) = []"
      using inv
      by (auto simp: pipe_fds_empty_iff pipe_only_at_read_fd_def fd_get_fd_set is_pipe_end_def)
    ultimately show ?thesis using step by (simp add: s2_def)
  qed
qed

lemma stage_loop_wired:
  assumes "segs \<noteq> []" and "pipe_index s + length segs = Suc np"
    and "\<forall>seg\<in>set segs. seg \<noteq> exit_nl \<and> seg \<noteq> ''\<newline>''"
    and "\<forall>k. \<not> pipe_fails e k" and "\<forall>k. \<not> fork_fails e k"
    and "pipe_only_at_read_fd s"
  shows "\<exists>s'. stage_loop e np segs s = (Next, s') \<and>
           pipes_made s' = pipes_made s + (np - pipe_index s) \<and>
           length (children s') = length (children s) + length segs \<and>
           pipe_fds (fds s') = []"
  using assms
proof (induction segs arbitrary: s)
  case Nil
  then show ?case by simp
next
  case (Cons token rest)
  show ?case
  proof (cases "rest = []")
    case True
    with Cons.prems have idx: "pipe_index s = np" by simp
    from stage_step_last[OF idx, of token e] Cons.prems
    obtain s' where "stage_step e np token s = (Next, s')" "pipes_made s' = pipes_made s"
      "length (children s') = Suc (length (children s))" "pipe_fds (fds s') = []"
      by auto
    then show ?thesis using True idx by simp
  next
    case False
    with Cons.prems have idx: "pipe_index s < np" by (cases rest) auto
    from stage_step_inner[OF idx, of token e] Cons.prems
    obtain s1 where s1: "stage_step e np token s = (Next, s1)"
      "pipe_index s1 = Suc (pipe_index s)" "pipes_made s1 = Suc (pipes_made s)"
      "length (children s1) = Suc (length (children s))" "pipe_only_at_read_fd s1"
      by auto
    from Cons.prems s1 have "pipe_index s1 + length rest = Suc np" by simp
    from Cons.IH[OF False this _ Cons.prems(4,5) s1(5)] Cons.prems(3)
    obtain s' where "stage_loop e np rest s1 = (Next, s')"
      "pipes_made s' = pipes_made s1 + (np - pipe_index s1)"
      "length (children s') = length (children s1) + length rest" "pipe_fds (fds s') = []"
      by auto
    then show ?thesis using s1 idx by simp
  qed
qed

text \<open>
  On a line where \<open>count_pipes\<close> and the split at the pipe character agree (one more
  segment than counted pipes), with no segment that is \<open>exit\<close> or empty and no failure
  of \<open>pipe\<close> or \<open>fork\<close>, the parent makes one pipe less than it forks children and
  ends the stage loop with no descriptor on an end of a pipe, if it had none before.
\<close>

lemma balanced_line_parent_clean:
  assumes "length (strtok_all bar line) = Suc (count_pipes line)"
    and "exit_nl \<notin> set (strtok_all bar line)" and "''\<newline>'' \<notin> set (strtok_all bar line)"
    and "\<forall>k. \<not> pipe_fails e k" and "\<forall>k. \<not> fork_fails e k"
    and "pipe_fds (fds s) = []"
  shows "\<exists>s'. run_line e line s = (None, s') \<and>
           pipes_made s' = pipes_made s + (length (strtok_all bar line) - 1) \<and>
           length (children s') = length (children s) + length (strtok_all bar line) \<and>
           pipe_fds (fds s') = []"
proof -
  let ?s0 = "s\<lparr>write_fd := 1, read_fd := 0, pipe_index := 0\<rparr>"
  have inv: "pipe_only_at_read_fd ?s0"
    using assms(6) by (simp add: pipe_only_at_read_fd_def pipe_fds_empty_iff)
  have *: "pipe_index ?s0 + length (strtok_all bar line) = Suc (count_pipes line)"
    using assms(1) by simp
  have segs: "\<forall>seg\<in>set (strtok_all bar line). seg \<noteq> exit_nl \<and> seg \<noteq> ''\<newline>''"
    using assms(2,3) by auto
  have "strtok_all bar line \<noteq> []"
    using assms(1) by auto
  from stage_loop_wired[OF this * segs assms(4,5) inv]
  obtain s' where "stage_loop e (count_pipes line) (strtok_all bar line) ?s0 = (Next, s')"
    "pipes_made s' = pipes_made s + count_pipes line"
    "length (children s') = length (children s) + length (strtok_all bar line)"
    "pipe_fds (fds s') = []"
    by auto
  then show ?thesis using assms(1) by (simp add: run_line_def)
qed

section \<open>C2: the pipes counted and the stages split disagree\<close>

text \<open>
  C2 asks for \<open>n - 1\<close> pipes for the \<open>n\<close> stages of a line and for a parent that holds
  no end of a pipe after the stage loop.  \<open>count_pipes\<close>, documented as the number of
  pipes in the command, counts only the pipe characters that stand alone between
  blanks, while \<open>main\<close> splits the stages at every pipe character.  On \<open>ls|wc\<close> it
  counts no pipe: the two stages are forked with the descriptors 0 and 1 of the shell,
  no pipe is made, and \<open>wait\<close> is called once for the two children.  On \<open>| ls\<close> it
  counts one pipe for the single stage: the pipe is made as descriptors 3 and 4, the
  stage writes to it, and the parent ends the loop with the read end still open at
  descriptor 3.
\<close>

theorem pipe_count_disagrees_with_stages:
  "count_pipes ''ls|wc\<newline>'' = 0 \<and>
   strtok_all bar ''ls|wc\<newline>'' = [''ls'', ''wc\<newline>''] \<and>
   fst (run_line env_std ''ls|wc\<newline>'' shell0) = None \<and>
   map c_arg_str (children (snd (run_line env_std ''ls|wc\<newline>'' shell0))) = [''ls'', ''wc\<newline>''] \<and>
   map c_read_fd (children (snd (run_line env_std ''ls|wc\<newline>'' shell0))) = [0, 0] \<and>
   map c_write_fd (children (snd (run_line env_std ''ls|wc\<newline>'' shell0))) = [1, 1] \<and>
   pipes_made (snd (run_line env_std ''ls|wc\<newline>'' shell0)) = 0 \<and>
   wait_calls (snd (run_line env_std ''ls|wc\<newline>'' shell0)) = 1 \<and>
   count_pipes ''| ls\<newline>'' = 1 \<and>
   strtok_all bar ''| ls\<newline>'' = ['' ls\<newline>''] \<and>
   map c_write_fd (children (snd (run_line env_std ''| ls\<newline>'' shell0))) = [4] \<and>
   pipes_made (snd (run_line env_std ''| ls\<newline>'' shell0)) = 1 \<and>
   fds (snd (run_line env_std ''| ls\<newline>'' shell0))
     = [Some Tty, Some Tty, Some Tty, Some (PipeR 0), None] \<and>
   pipe_fds (fds (snd (run_line env_std ''| ls\<newline>'' shell0))) = [3]"
  by code_simp

section \<open>C1: a child keeps the read end of the pipe it writes to\<close>

text \<open>
  C1 asks that no child holds an end of a pipe it does not use when it replaces its
  image.  For the line \<open>yes | head\<close> the parent makes pipe 0 as descriptors 3 and 4 and
  forks the first child; \<open>process_args\<close> moves descriptor 4 onto standard output and
  closes it, but the read end at descriptor 3 is never closed: \<open>yes\<close> is executed
  with standard input on the terminal, standard output on the write end and
  descriptor 3 still open on the read end of its own pipe.
\<close>

theorem child_keeps_read_end_of_own_pipe:
  "fst (run_child env_std no_files
          (children (snd (run_line env_std ''yes | head\<newline>'' shell0)) ! 0))
     = Exec ''yes'' [''yes''] \<and>
   p_fds (snd (run_child env_std no_files
          (children (snd (run_line env_std ''yes | head\<newline>'' shell0)) ! 0)))
     = [Some Tty, Some (PipeW 0), Some Tty, Some (PipeR 0), None]"
  by code_simp

section \<open>The children forked by the stage loop\<close>

lemma children_parent_after_fork: "children (snd (parent_after_fork np prev s)) = children s"
  by (simp add: parent_after_fork_def split: option.splits)

lemma children_make_pipe: "make_pipe e np s = Some s1 \<Longrightarrow> children s1 = children s"
  by (auto simp: make_pipe_def split: if_splits prod.splits)



lemma stage_loop_append:
  "stage_loop e np (pre @ rest) s =
     (case stage_loop e np pre s of
        (Next, s') \<Rightarrow> stage_loop e np rest s'
      | (Break, s') \<Rightarrow> (Break, s')
      | (ExitWith c, s') \<Rightarrow> (ExitWith c, s'))"
  by (induction pre arbitrary: s) (auto split: prod.splits flow.splits)

lemma stage_step_Next_children:
  assumes "stage_step e np token s = (Next, s')"
  shows "length (children s') = Suc (length (children s))"
proof -
  from assms obtain s1 where mp: "make_pipe e np s = Some s1"
    and st: "parent_after_fork np (read_fd s)
               (s1\<lparr>children := children s1 @ [child_of np token (read_fd s) s1]\<rparr>) = (Next, s')"
    by (auto simp: stage_step_def Let_def split: if_splits option.splits)
  from st have "children s' = children s1 @ [child_of np token (read_fd s) s1]"
    using children_parent_after_fork[of np "read_fd s"
        "s1\<lparr>children := children s1 @ [child_of np token (read_fd s) s1]\<rparr>"]
    by simp
  then show ?thesis using children_make_pipe[OF mp] by simp
qed

lemma stage_loop_Next_children:
  "stage_loop e np segs s = (Next, s') \<Longrightarrow>
     length (children s') = length (children s) + length segs"
proof (induction segs arbitrary: s)
  case Nil
  then show ?case by simp
next
  case (Cons token rest)
  then obtain s1 where s1: "stage_step e np token s = (Next, s1)"
    "stage_loop e np rest s1 = (Next, s')"
    by (auto split: prod.splits flow.splits)
  with Cons.IH[OF s1(2)] stage_step_Next_children[OF s1(1)] show ?case by simp
qed

section \<open>C3: the \<open>exit\<close> segment\<close>

text \<open>
  C3, as the code has it.  The parent compares each segment with \<open>exit\<close> followed by
  the line terminator when the stage loop reaches it.  For every line with such a
  segment that the loop reaches (every earlier segment went through its iteration),
  the process exits with status 0 at that segment: the children of the earlier segments
  have been forked, none is forked for the \<open>exit\<close> segment or a later one.  When it is
  the first segment, as on the line \<open>exit\<close>, nothing is forked.
\<close>

theorem exit_segment_terminates:
  assumes "strtok_all bar line = pre @ exit_nl # post"
    and "stage_loop e (count_pipes line) pre (s\<lparr>write_fd := 1, read_fd := 0, pipe_index := 0\<rparr>)
           = (Next, s1)"
  shows "run_line e line s = (Some 0, s1) \<and>
         length (children s1) = length (children s) + length pre"
proof -
  have "stage_loop e (count_pipes line) (pre @ exit_nl # post)
          (s\<lparr>write_fd := 1, read_fd := 0, pipe_index := 0\<rparr>) = (ExitWith 0, s1)"
    using assms(2) by (simp add: stage_loop_append stage_step_def)
  then have "run_line e line s = (Some 0, s1)"
    using assms(1) by (simp add: run_line_def)
  moreover have "length (children s1) = length (children s) + length pre"
    using stage_loop_Next_children[OF assms(2)] by simp
  ultimately show ?thesis by simp
qed

text \<open>
  The line \<open>exit\<close> exits at once; on \<open>ls |exit\<close> the child of \<open>ls\<close> has been forked
  when the process exits.
\<close>

theorem exit_segment_terminates_witness:
  "strtok_all bar ''exit\<newline>'' = [] @ exit_nl # [] \<and>
   run_line env_std ''exit\<newline>'' shell0
     = (Some 0, shell0\<lparr>write_fd := 1, read_fd := 0, pipe_index := 0\<rparr>) \<and>
   strtok_all bar ''ls |exit\<newline>'' = [''ls ''] @ exit_nl # [] \<and>
   fst (stage_loop env_std (count_pipes ''ls |exit\<newline>'') [''ls '']
          (shell0\<lparr>write_fd := 1, read_fd := 0, pipe_index := 0\<rparr>)) = Next \<and>
   fst (run_line env_std ''ls |exit\<newline>'' shell0) = Some 0 \<and>
   length (children (snd (run_line env_std ''ls |exit\<newline>'' shell0))) = 1"
proof -
  have h1: "strtok_all bar ''ls |exit\<newline>'' = [''ls ''] @ exit_nl # []"
    by code_simp
  have h2': "fst (stage_loop env_std (count_pipes ''ls |exit\<newline>'') [''ls '']
          (shell0\<lparr>write_fd := 1, read_fd := 0, pipe_index := 0\<rparr>)) = Next"
    by code_simp
  then obtain s1 where h2: "stage_loop env_std (count_pipes ''ls |exit\<newline>'') [''ls '']
          (shell0\<lparr>write_fd := 1, read_fd := 0, pipe_index := 0\<rparr>) = (Next, s1)"
    by (metis prod.collapse)
  have g1: "strtok_all bar ''exit\<newline>'' = [] @ exit_nl # []"
    by code_simp
  have g2: "stage_loop env_std (count_pipes ''exit\<newline>'') []
          (shell0\<lparr>write_fd := 1, read_fd := 0, pipe_index := 0\<rparr>)
          = (Next, shell0\<lparr>write_fd := 1, read_fd := 0, pipe_index := 0\<rparr>)"
    by simp
  have c0: "length (children shell0) = 0" by (simp add: shell0_def)
  show ?thesis
    using exit_segment_terminates[OF h1 h2] exit_segment_terminates[OF g1 g2] h1 h2' g1 c0
    by simp
qed

text \<open>
  The claim as stated fails on \<open>ls | exit\<close>: the second segment holds the single token
  \<open>exit\<close>, yet it is not equal to \<open>exit\<close> with the line terminator because of the
  blank, so the process does not exit and forks two children.  On \<open>ls |exit\<close> the
  process exits with status 0, but after the child of \<open>ls\<close> has been forked.
\<close>

theorem exit_after_pipe_counterexample:
  "strtok_all bar ''ls | exit\<newline>'' = [''ls '', '' exit\<newline>''] \<and>
   strtok_all space '' exit\<newline>'' = [exit_nl] \<and>
   fst (run_line env_std ''ls | exit\<newline>'' shell0) = None \<and>
   length (children (snd (run_line env_std ''ls | exit\<newline>'' shell0))) = 2 \<and>
   fst (run_line env_std ''ls |exit\<newline>'' shell0) = Some 0 \<and>
   length (children (snd (run_line env_std ''ls |exit\<newline>'' shell0))) = 1"
  by code_simp

section \<open>The argument buffer\<close>






section \<open>C4: stages with many arguments\<close>




section \<open>C5: a redirection operator with no file name\<close>

text \<open>
  C5 asks that a segment ending in a redirection operator fails to parse, without a
  crash.  On the line \<open>cat < | wc\<close> the first segment is \<open>cat <\<close> followed by a blank:
  after the operator \<open>strtok\<close> returns the null pointer, and \<open>strcspn\<close> reads through
  it.  On the line \<open>cat <\<close> the operator carries the line terminator, is not
  recognised and is handed to \<open>cat\<close> as an argument.
\<close>

theorem redirect_without_target_faults:
  "c_arg_str (children (snd (run_line env_std ''cat < | wc\<newline>'' shell0)) ! 0) = ''cat < '' \<and>
   strtok_all space ''cat < '' = [''cat'', ''<''] \<and>
   fst (run_child env_std no_files
          (children (snd (run_line env_std ''cat < | wc\<newline>'' shell0)) ! 0))
     = Fault NullDeref \<and>
   fst (process_args env_std ''cat <\<newline>'' 0 1 (tty_proc no_files))
     = Exec ''cat'' [''cat'', ''<'']"
  by code_simp

section \<open>C6: segments without a program\<close>








section \<open>C7: the modes of output redirection\<close>

lemma redirect_output_opened:
  assumes "strip_newline name \<noteq> []" and "\<not> open_fails e (strip_newline name)"
    and "O_CREAT \<in> set flags"
  shows "\<exists>p'. redirect e name flags mode 1 i p =
             (if MAX_ARGS \<le> i then Inl (Fault ArgsOverflow, p') else Inr p') \<and>
           fd_get (p_fds p') 1 = Some (File (strip_newline name) flags) \<and>
           p_fs p' (strip_newline name) =
             Some (case p_fs p (strip_newline name) of
                     None \<Rightarrow> \<lparr>contents = [], perms = mode AND NOT (umask e)\<rparr>
                   | Some f \<Rightarrow> if O_TRUNC \<in> set flags then f\<lparr>contents := []\<rparr> else f)"
  using assms
  by (auto simp: redirect_def sys_open_def sys_dup2_def Let_def fd_get_fd_set
           split: option.splits)

lemma write_through_append:
  assumes "fd_get (p_fds p) fd = Some (File path flags)" and "O_APPEND \<in> set flags"
  shows "map_option contents (write_through p fd off data path)
           = map_option (\<lambda>f. contents f @ data) (p_fs p path)"
  using assms by (simp add: write_through_def sys_write_def split: option.splits)

text \<open>
  C7, as the code has it.  Whenever the token loop meets the operator \<open>>\<close> followed
  by a file name that can be opened, whatever arguments were stored before, the file
  is opened with \<open>O_TRUNC\<close>, \<open>O_CREAT\<close> and \<open>O_WRONLY\<close> and standard output is bound to
  it: an existing file is emptied and keeps its permission bits, a missing file is
  created empty with the bits of 0644 that the file mode creation mask does not clear.
  For the operator \<open>>>\<close> the file is opened with \<open>O_APPEND\<close>, \<open>O_CREAT\<close> and
  \<open>O_WRONLY\<close>: an existing file keeps its contents, a missing file is created in the
  same way, and every write through standard output goes to the end of the file.  The
  loop then goes on with the tokens after the file name, unless the argument buffer was
  full, in which case the store that follows the \<open>dup2\<close> is past its end.
\<close>

theorem output_redirection_modes:
  assumes "strip_newline name \<noteq> []" and "\<not> open_fails e (strip_newline name)"
  shows "(\<exists>p'. scan e [''>'', name] args p =
                 (if MAX_ARGS \<le> length args then Inl (Fault ArgsOverflow, p') else Inr (args, p')) \<and>
               scan e (''>'' # name # rest) args p =
                 (if MAX_ARGS \<le> length args then Inl (Fault ArgsOverflow, p')
                  else scan e rest args p') \<and>
               fd_get (p_fds p') 1 = Some (File (strip_newline name) [O_TRUNC, O_CREAT, O_WRONLY]) \<and>
               p_fs p' (strip_newline name) =
                 Some (case p_fs p (strip_newline name) of
                         None \<Rightarrow> \<lparr>contents = [], perms = mode_0644 AND NOT (umask e)\<rparr>
                       | Some f \<Rightarrow> f\<lparr>contents := []\<rparr>)) \<and>
         (\<exists>p'. scan e [''>>'', name] args p =
                 (if MAX_ARGS \<le> length args then Inl (Fault ArgsOverflow, p') else Inr (args, p')) \<and>
               scan e (''>>'' # name # rest) args p =
                 (if MAX_ARGS \<le> length args then Inl (Fault ArgsOverflow, p')
                  else scan e rest args p') \<and>
               fd_get (p_fds p') 1 = Some (File (strip_newline name) [O_APPEND, O_CREAT, O_WRONLY]) \<and>
               p_fs p' (strip_newline name) =
                 Some (case p_fs p (strip_newline name) of
                         None \<Rightarrow> \<lparr>contents = [], perms = mode_0644 AND NOT (umask e)\<rparr>
                       | Some f \<Rightarrow> f) \<and>
               (\<forall>off data.
                  map_option contents (write_through p' 1 off data (strip_newline name))
                    = map_option (\<lambda>f. contents f @ data) (p_fs p' (strip_newline name))))"
proof -
  have ne: "''>'' \<noteq> exit_nl" "''>>'' \<noteq> exit_nl" by (simp_all add: exit_nl_def)
  from redirect_output_opened[OF assms, of "[O_TRUNC, O_CREAT, O_WRONLY]" mode_0644 "length args" p]
  obtain p1 where p1:
    "redirect e name [O_TRUNC, O_CREAT, O_WRONLY] mode_0644 1 (length args) p =
       (if MAX_ARGS \<le> length args then Inl (Fault ArgsOverflow, p1) else Inr p1)"
    "fd_get (p_fds p1) 1 = Some (File (strip_newline name) [O_TRUNC, O_CREAT, O_WRONLY])"
    "p_fs p1 (strip_newline name) =
       Some (case p_fs p (strip_newline name) of
               None \<Rightarrow> \<lparr>contents = [], perms = mode_0644 AND NOT (umask e)\<rparr>
             | Some f \<Rightarrow> f\<lparr>contents := []\<rparr>)"
    by (auto cong: option.case_cong)
  from redirect_output_opened[OF assms, of "[O_APPEND, O_CREAT, O_WRONLY]" mode_0644 "length args" p]
  obtain p2 where p2:
    "redirect e name [O_APPEND, O_CREAT, O_WRONLY] mode_0644 1 (length args) p =
       (if MAX_ARGS \<le> length args then Inl (Fault ArgsOverflow, p2) else Inr p2)"
    "fd_get (p_fds p2) 1 = Some (File (strip_newline name) [O_APPEND, O_CREAT, O_WRONLY])"
    "p_fs p2 (strip_newline name) =
       Some (case p_fs p (strip_newline name) of
               None \<Rightarrow> \<lparr>contents = [], perms = mode_0644 AND NOT (umask e)\<rparr>
             | Some f \<Rightarrow> f)"
    by (auto cong: option.case_cong)
  have t: "scan e (''>'' # name # ts) args p =
             (if MAX_ARGS \<le> length args then Inl (Fault ArgsOverflow, p1) else scan e ts args p1)" for ts
    using ne p1(1)[unfolded One_nat_def] by simp
  have a: "scan e (''>>'' # name # ts) args p =
             (if MAX_ARGS \<le> length args then Inl (Fault ArgsOverflow, p2) else scan e ts args p2)" for ts
    using ne p2(1)[unfolded One_nat_def] by simp
  have w: "map_option contents (write_through p2 1 off data (strip_newline name))
             = map_option (\<lambda>f. contents f @ data) (p_fs p2 (strip_newline name))" for off data
    by (rule write_through_append[OF p2(2)]) simp
  have "\<exists>p'. scan e [''>'', name] args p =
                 (if MAX_ARGS \<le> length args then Inl (Fault ArgsOverflow, p') else Inr (args, p')) \<and>
               scan e (''>'' # name # rest) args p =
                 (if MAX_ARGS \<le> length args then Inl (Fault ArgsOverflow, p')
                  else scan e rest args p') \<and>
               fd_get (p_fds p') 1 = Some (File (strip_newline name) [O_TRUNC, O_CREAT, O_WRONLY]) \<and>
               p_fs p' (strip_newline name) =
                 Some (case p_fs p (strip_newline name) of
                         None \<Rightarrow> \<lparr>contents = [], perms = mode_0644 AND NOT (umask e)\<rparr>
                       | Some f \<Rightarrow> f\<lparr>contents := []\<rparr>)"
    using t[of "[]"] t[of rest] p1(2,3) by (intro exI[of _ p1]) simp
  moreover have "\<exists>p'. scan e [''>>'', name] args p =
                 (if MAX_ARGS \<le> length args then Inl (Fault ArgsOverflow, p') else Inr (args, p')) \<and>
               scan e (''>>'' # name # rest) args p =
                 (if MAX_ARGS \<le> length args then Inl (Fault ArgsOverflow, p')
                  else scan e rest args p') \<and>
               fd_get (p_fds p') 1 = Some (File (strip_newline name) [O_APPEND, O_CREAT, O_WRONLY]) \<and>
               p_fs p' (strip_newline name) =
                 Some (case p_fs p (strip_newline name) of
                         None \<Rightarrow> \<lparr>contents = [], perms = mode_0644 AND NOT (umask e)\<rparr>
                       | Some f \<Rightarrow> f) \<and>
               (\<forall>off data.
                  map_option contents (write_through p' 1 off data (strip_newline name))
                    = map_option (\<lambda>f. contents f @ data) (p_fs p' (strip_newline name)))"
    using a[of "[]"] a[of rest] p2(2,3) w by (intro exI[of _ p2]) simp
  ultimately show ?thesis by (rule conjI)
qed

text \<open>
  Under the mask \<open>022\<close>: the operator \<open>>\<close> creates the missing \<open>out.txt\<close> with the bits 0644 and
  empties the existing one, the operator \<open>>>\<close> keeps the contents \<open>old\<close> and a write of \<open>new\<close> gives
  \<open>oldnew\<close>.
\<close>

theorem output_redirection_modes_witness:
  "strip_newline ''out.txt\<newline>'' = ''out.txt'' \<and> \<not> open_fails env_std ''out.txt'' \<and>
   (\<exists>p'. scan env_std [''>'', ''out.txt\<newline>''] [''echo'', ''hi''] (tty_proc no_files)
             = Inr ([''echo'', ''hi''], p') \<and>
          fd_get (p_fds p') 1 = Some (File ''out.txt'' [O_TRUNC, O_CREAT, O_WRONLY]) \<and>
          p_fs p' ''out.txt'' = Some \<lparr>contents = [], perms = mode_0644\<rparr>) \<and>
   (\<exists>p'. scan env_std [''>>'', ''out.txt\<newline>''] [''echo'', ''hi'']
             (tty_proc (one_file ''out.txt'' ''old'')) = Inr ([''echo'', ''hi''], p') \<and>
          fd_get (p_fds p') 1 = Some (File ''out.txt'' [O_APPEND, O_CREAT, O_WRONLY]) \<and>
          p_fs p' ''out.txt'' = Some \<lparr>contents = ''old'', perms = mode_0644\<rparr> \<and>
          map_option contents (write_through p' 1 0 ''new'' ''out.txt'') = Some ''oldnew'') \<and>
   fst (process_args env_std ''echo hi > out.txt\<newline>'' 0 1 (tty_proc (one_file ''out.txt'' ''old'')))
     = Exec ''echo'' [''echo'', ''hi''] \<and>
   p_fs (snd (process_args env_std ''echo hi > out.txt\<newline>'' 0 1
                (tty_proc (one_file ''out.txt'' ''old'')))) ''out.txt''
     = Some \<lparr>contents = [], perms = mode_0644\<rparr>"
proof -
  have s: "strip_newline ''out.txt\<newline>'' = ''out.txt''" by code_simp
  have h1: "strip_newline ''out.txt\<newline>'' \<noteq> []" by (simp add: s)
  have h2: "\<not> open_fails env_std (strip_newline ''out.txt\<newline>'')" by (simp add: env_std_def)
  have m: "mode_0644 AND NOT (umask env_std) = mode_0644" by code_simp
  have l: "\<not> MAX_ARGS \<le> length [''echo'', ''hi'']" by (simp add: MAX_ARGS_def)
  have f0: "p_fs (tty_proc no_files) ''out.txt'' = None"
    by (simp add: tty_proc_def no_files_def)
  have f1: "p_fs (tty_proc (one_file ''out.txt'' ''old'')) ''out.txt''
              = Some \<lparr>contents = ''old'', perms = mode_0644\<rparr>"
    by (simp add: tty_proc_def one_file_def)
  note new = output_redirection_modes[OF h1 h2, where rest = "[]" and args = "[''echo'', ''hi'']"
      and p = "tty_proc no_files", unfolded s f0 m]
  note old = output_redirection_modes[OF h1 h2, where rest = "[]" and args = "[''echo'', ''hi'']"
      and p = "tty_proc (one_file ''out.txt'' ''old'')", unfolded s f1 m]
  from new l obtain p1 where p1:
    "scan env_std [''>'', ''out.txt\<newline>''] [''echo'', ''hi''] (tty_proc no_files)
       = Inr ([''echo'', ''hi''], p1)"
    "fd_get (p_fds p1) 1 = Some (File ''out.txt'' [O_TRUNC, O_CREAT, O_WRONLY])"
    "p_fs p1 ''out.txt'' = Some \<lparr>contents = [], perms = mode_0644\<rparr>"
    by auto
  from old l obtain p2 where p2:
    "scan env_std [''>>'', ''out.txt\<newline>''] [''echo'', ''hi'']
       (tty_proc (one_file ''out.txt'' ''old'')) = Inr ([''echo'', ''hi''], p2)"
    "fd_get (p_fds p2) 1 = Some (File ''out.txt'' [O_APPEND, O_CREAT, O_WRONLY])"
    "p_fs p2 ''out.txt'' = Some \<lparr>contents = ''old'', perms = mode_0644\<rparr>"
    "map_option contents (write_through p2 1 0 ''new'' ''out.txt'') = Some ''oldnew''"
    by auto
  have e1: "fst (process_args env_std ''echo hi > out.txt\<newline>'' 0 1
                  (tty_proc (one_file ''out.txt'' ''old''))) = Exec ''echo'' [''echo'', ''hi'']"
    by code_simp
  have e2: "p_fs (snd (process_args env_std ''echo hi > out.txt\<newline>'' 0 1
                (tty_proc (one_file ''out.txt'' ''old'')))) ''out.txt''
              = Some \<lparr>contents = [], perms = mode_0644\<rparr>"
    by code_simp
  show ?thesis
    using s h2[unfolded s] p1 p2 e1 e2 by blast
qed

text \<open>
  The claim as stated promises the permission bits 0644.  Under the mask \<open>077\<close> the
  line \<open>echo hi > new.txt\<close> creates \<open>new.txt\<close> with the bits 0600.  Nothing is opened
  or created when \<open>open\<close> is refused, or when the operator is followed by a blank and
  the end of the line, so that the file name is empty: the child reports the error and
  exits with status 1.
\<close>

theorem umask_clears_permission_bits_counterexample:
  "fst (process_args env_077 ''echo hi > new.txt\<newline>'' 0 1 (tty_proc no_files))
     = Exec ''echo'' [''echo'', ''hi''] \<and>
   fd_get (p_fds (snd (process_args env_077 ''echo hi > new.txt\<newline>'' 0 1 (tty_proc no_files)))) 1
     = Some (File ''new.txt'' [O_TRUNC, O_CREAT, O_WRONLY]) \<and>
   p_fs (snd (process_args env_077 ''echo hi > new.txt\<newline>'' 0 1 (tty_proc no_files))) ''new.txt''
     = Some \<lparr>contents = [], perms = 6 * 64\<rparr> \<and>
   (6 * 64 :: 32 word) \<noteq> mode_0644 \<and>
   fst (process_args env_denied ''echo hi > out.txt\<newline>'' 0 1 (tty_proc no_files)) = Exit 1 \<and>
   p_fs (snd (process_args env_denied ''echo hi > out.txt\<newline>'' 0 1 (tty_proc no_files))) ''out.txt''
     = None \<and>
   strtok_all space ''echo hi > \<newline>'' = [''echo'', ''hi'', ''>'', ''\<newline>''] \<and>
   fst (process_args env_std ''echo hi > \<newline>'' 0 1 (tty_proc no_files)) = Exit 1 \<and>
   p_err (snd (process_args env_std ''echo hi > \<newline>'' 0 1 (tty_proc no_files))) = [''open'']"
  by code_simp

section \<open>C8: the descriptor of a redirection stays open\<close>

text \<open>
  C8 asks that the descriptor returned by \<open>open\<close> is closed after \<open>dup2\<close>.  The pipe
  wiring of lines 197-219 does close after \<open>dup2\<close>; the redirection branches do not.
  On \<open>cat < in.txt\<close> the file is opened as descriptor 3 and copied onto standard input,
  and \<open>cat\<close> is executed with descriptor 3 still open on the file.
\<close>

theorem redirect_keeps_opened_descriptor:
  "fst (process_args env_std ''cat < in.txt\<newline>'' 0 1 (tty_proc (one_file ''in.txt'' ''hi'')))
     = Exec ''cat'' [''cat''] \<and>
   p_fds (snd (process_args env_std ''cat < in.txt\<newline>'' 0 1
                 (tty_proc (one_file ''in.txt'' ''hi''))))
     = [Some (File ''in.txt'' [O_RDONLY]), Some Tty, Some Tty, Some (File ''in.txt'' [O_RDONLY])]"
  by code_simp

section \<open>C9: the empty line\<close>

text \<open>
  C9, as the code has it.  On the line that holds only the line terminator the stage
  loop stops at once: no child is forked, no pipe is made, nothing is reported with
  \<open>perror\<close>, the parent's descriptors are unchanged, \<open>wait\<close> is called once, the
  prompt is printed again and the read loop goes on with the next line.
\<close>

theorem empty_line_skipped:
  "fst (run_line e ''\<newline>'' s) = None \<and>
   children (snd (run_line e ''\<newline>'' s)) = children s \<and>
   errlog (snd (run_line e ''\<newline>'' s)) = errlog s \<and>
   fds (snd (run_line e ''\<newline>'' s)) = fds s \<and>
   pipes_made (snd (run_line e ''\<newline>'' s)) = pipes_made s \<and>
   wait_calls (snd (run_line e ''\<newline>'' s)) = wait_calls s + 1 \<and>
   prompts (snd (run_line e ''\<newline>'' s)) = Suc (prompts s) \<and>
   read_loop e (''\<newline>'' # later) s = read_loop e later (snd (run_line e ''\<newline>'' s))"
proof -
  have seg: "strtok_all bar ''\<newline>'' = [''\<newline>'']" by code_simp
  have ne: "''\<newline>'' \<noteq> exit_nl" by code_simp
  have "run_line e ''\<newline>'' s =
          (None, s\<lparr>write_fd := 1, read_fd := 0, pipe_index := 0,
                    wait_calls := wait_calls s + (count_pipes ''\<newline>'' + 1), prompts := Suc (prompts s)\<rparr>)"
    using ne by (simp add: run_line_def seg stage_step_def Let_def)
  moreover have "count_pipes ''\<newline>'' = 0" by code_simp
  ultimately show ?thesis by simp
qed

text \<open>
  The claim as stated fails on a line of one blank: the segment is not equal to the
  line terminator alone, so a child is forked; it finds the empty program name,
  \<open>execvp\<close> fails and the child reports the error and exits with status 3.
\<close>

theorem blank_line_counterexample:
  "fst (run_line env_std '' \<newline>'' shell0) = None \<and>
   map c_arg_str (children (snd (run_line env_std '' \<newline>'' shell0))) = ['' \<newline>''] \<and>
   fst (run_child env_std no_files (children (snd (run_line env_std '' \<newline>'' shell0)) ! 0))
     = Exit 3 \<and>
   p_err (snd (run_child env_std no_files (children (snd (run_line env_std '' \<newline>'' shell0)) ! 0)))
     = [''execvp'']"
  by code_simp

section \<open>C10: the \<open>exit\<close> token in a child\<close>

lemma scan_append:
  "scan e pre args p = Inr (args', p') \<Longrightarrow> scan e (pre @ rest) args p = scan e rest args' p'"
proof (induction e pre args p rule: scan.induct)
  case (1 e args p)
  then show ?case by simp
next
  case (2 e token more args p)
  consider (ex) "token = exit_nl"
    | (inp) "token \<noteq> exit_nl" "token = ''<''"
    | (out) "token \<noteq> exit_nl" "token \<noteq> ''<''" "token = ''>''"
    | (app) "token \<noteq> exit_nl" "token \<noteq> ''<''" "token \<noteq> ''>''" "token = ''>>''"
    | (arg) "token \<noteq> exit_nl" "token \<noteq> ''<''" "token \<noteq> ''>''" "token \<noteq> ''>>''"
    by blast
  then show ?case
  proof cases
    case ex
    then show ?thesis using "2.prems" by simp
  next
    case inp
    from "2.prems" inp obtain input_file more' p1 where
      m: "more = input_file # more'" and r: "redirect e input_file [O_RDONLY] 0 0 (length args) p = Inr p1"
      and s: "scan e more' args p1 = Inr (args', p')"
      by (auto split: list.splits sum.splits)
    from "2.IH"(1)[OF inp(1) inp(2) m r s] show ?thesis
      using inp m r by simp
  next
    case out
    from "2.prems" out obtain output_file more' p1 where
      m: "more = output_file # more'"
      and r: "redirect e output_file [O_TRUNC, O_CREAT, O_WRONLY] mode_0644 1 (length args) p = Inr p1"
      and s: "scan e more' args p1 = Inr (args', p')"
      by (auto split: list.splits sum.splits)
    from "2.IH"(2)[OF out(1) out(2) out(3) m r s] show ?thesis
      using out m r by simp
  next
    case app
    from "2.prems" app obtain output_file more' p1 where
      m: "more = output_file # more'"
      and r: "redirect e output_file [O_APPEND, O_CREAT, O_WRONLY] mode_0644 1 (length args) p = Inr p1"
      and s: "scan e more' args p1 = Inr (args', p')"
      by (auto split: list.splits sum.splits)
    from "2.IH"(3)[OF app(1) app(2) app(3) app(4) m r s] show ?thesis
      using app m r by simp
  next
    case arg
    from "2.prems" arg have ok: "\<not> MAX_ARGS \<le> length args"
      and s: "scan e more (args @ [strip_newline token]) p = Inr (args', p')"
      by (auto split: if_splits)
    from "2.IH"(4)[OF arg(1) arg(2) arg(3) arg(4) ok s] show ?thesis
      using arg ok by simp
  qed
qed

text \<open>
  C10, as the code has it.  When the standard streams of a child have been wired and
  the token loop reaches a token equal to \<open>exit\<close> followed by the line terminator
  (the tokens before it were stored or handled as redirections without a failure, and
  none of them is a redirection operator that takes this token as its file name), the
  child exits with status 0 there: no later redirection is applied and the image is
  not replaced.
\<close>

theorem exit_token_reached:
  assumes "rebind w 1 p = Inr p1" and "rebind r 0 p1 = Inr p2"
    and "strtok_all space arg_str = pre @ exit_nl # post"
    and "scan e pre [] p2 = Inr (args, p3)"
  shows "process_args e arg_str r w p = (Exit 0, p3)"
  using assms(1,2) scan_append[OF assms(4), of "exit_nl # post"]
  by (simp add: process_args_def assms(3))

text \<open>The line \<open>echo exit\<close>: the child exits with status 0 and executes nothing.\<close>

theorem exit_token_reached_witness:
  "rebind 1 1 (tty_proc no_files) = Inr (tty_proc no_files) \<and>
   rebind 0 0 (tty_proc no_files) = Inr (tty_proc no_files) \<and>
   strtok_all space ''echo exit\<newline>'' = [''echo''] @ exit_nl # [] \<and>
   scan env_std [''echo''] [] (tty_proc no_files) = Inr ([''echo''], tty_proc no_files) \<and>
   process_args env_std ''echo exit\<newline>'' 0 1 (tty_proc no_files) = (Exit 0, tty_proc no_files)"
proof -
  have h1: "rebind 1 1 (tty_proc no_files) = Inr (tty_proc no_files)" by (simp add: rebind_def)
  have h2: "rebind 0 0 (tty_proc no_files) = Inr (tty_proc no_files)" by (simp add: rebind_def)
  have h3: "strtok_all space ''echo exit\<newline>'' = [''echo''] @ exit_nl # []" by code_simp
  have h4: "scan env_std [''echo''] [] (tty_proc no_files) = Inr ([''echo''], tty_proc no_files)"
    by (simp add: exit_nl_def MAX_ARGS_def strip_newline_def newline_def)
  show ?thesis
    using exit_token_reached[OF h1 h2 h3 h4] h1 h2 h3 h4 by simp
qed

text \<open>
  The claim as stated fails on \<open>cat < exit\<close>: the token list holds \<open>exit\<close> with the
  line terminator, but the operator takes it as its file name; if the file \<open>exit\<close>
  exists \<open>cat\<close> is executed, otherwise the child exits with status 1.  It also
  fails when the child ends before the loop reaches the token: on
  \<open>cat < missing exit\<close> the earlier redirection fails (status 1), and the third child
  of \<open>a | b|c exit\<close> is handed a write descriptor that is closed, so that \<open>dup2\<close>
  fails (status 2).
\<close>

theorem exit_as_file_name_counterexample:
  "exit_nl \<in> set (strtok_all space ''cat < exit\<newline>'') \<and>
   fst (process_args env_std ''cat < exit\<newline>'' 0 1 (tty_proc (one_file ''exit'' ''data'')))
     = Exec ''cat'' [''cat''] \<and>
   fst (process_args env_std ''cat < exit\<newline>'' 0 1 (tty_proc no_files)) = Exit 1 \<and>
   exit_nl \<in> set (strtok_all space ''cat < missing exit\<newline>'') \<and>
   fst (process_args env_std ''cat < missing exit\<newline>'' 0 1 (tty_proc no_files)) = Exit 1 \<and>
   c_arg_str (children (snd (run_line env_std ''a | b|c exit\<newline>'' shell0)) ! 2)
     = ''c exit\<newline>'' \<and>
   exit_nl \<in> set (strtok_all space ''c exit\<newline>'') \<and>
   fst (run_child env_std no_files
          (children (snd (run_line env_std ''a | b|c exit\<newline>'' shell0)) ! 2)) = Exit 2"
  by code_simp

end
